theory Spec2Isabelle
  imports Complex_Main "HOL-Library.Sublist"
begin

section \<open>Values, parameter mappings and tables\<close>

text \<open>
  The Python values that travel through the wrapper: the entries of a parameter mapping,
  the keyword arguments handed to the data service and the objects produced by
  \<^verbatim>\<open>json.loads\<close>. A dict is an association list in insertion order; \<^verbatim>\<open>dict.get\<close>
  reads the first entry of a key.
\<close>

datatype pyval =
    PNone
  | PBool bool
  | PInt int
  | PFloat rat
  | PStr string
  | PList "pyval list"
  | PDict "(string \<times> pyval) list"

type_synonym params = "(string \<times> pyval) list"

text \<open>Python truth value testing, as used by \<^verbatim>\<open>if not x\<close>, \<^verbatim>\<open>all\<close> and \<^verbatim>\<open>any\<close>.\<close>

fun truthy :: "pyval \<Rightarrow> bool" where
  "truthy PNone = False"
| "truthy (PBool b) = b"
| "truthy (PInt i) = (i \<noteq> 0)"
| "truthy (PFloat r) = (r \<noteq> 0)"
| "truthy (PStr s) = (s \<noteq> [])"
| "truthy (PList l) = (l \<noteq> [])"
| "truthy (PDict d) = (d \<noteq> [])"

text \<open>\<^verbatim>\<open>params.get(key)\<close> and \<^verbatim>\<open>params.get(key, default)\<close>.\<close>

definition dict_get_default :: "params \<Rightarrow> string \<Rightarrow> pyval \<Rightarrow> pyval" where
  "dict_get_default d k dflt = (case map_of d k of None \<Rightarrow> dflt | Some v \<Rightarrow> v)"

definition dict_get :: "params \<Rightarrow> string \<Rightarrow> pyval" where
  "dict_get d k = dict_get_default d k PNone"

text \<open>\<^verbatim>\<open>s.split(",")\<close>: the pieces between commas, in order; never the empty list.\<close>

fun split_comma :: "string \<Rightarrow> string list" where
  "split_comma [] = [[]]"
| "split_comma (c # cs) =
     (if c = CHR '','' then [] # split_comma cs
      else (case split_comma cs of
              [] \<Rightarrow> [[c]]
            | w # ws \<Rightarrow> (c # w) # ws))"

text \<open>
  \<^verbatim>\<open>if isinstance(sites, str): sites = sites.split(",")\<close>: a string becomes the list of
  its pieces, any other value is left as it is.
\<close>

fun split_if_str :: "pyval \<Rightarrow> pyval" where
  "split_if_str (PStr s) = PList (map PStr (split_comma s))"
| "split_if_str v = v"

text \<open>
  A cell of a data frame: a missing value (\<^verbatim>\<open>NaN\<close>/\<^verbatim>\<open>None\<close>), a string or a number.
  A table is column-major, as a data frame is: named columns in order, and the number of
  rows of its index (which a frame keeps even when it has no column left).
\<close>

datatype cell = NaN | Text string | Number int

record table =
  tcolumns :: "(string \<times> cell list) list"
  nrows :: nat


definition notna :: "cell \<Rightarrow> bool" where
  "notna c = (c \<noteq> NaN)"

text \<open>The element-wise test \<^verbatim>\<open>df != '-'\<close>: true of every cell but the string \<^verbatim>\<open>'-'\<close>.\<close>

definition ne_sentinel :: "cell \<Rightarrow> bool" where
  "ne_sentinel c = (c \<noteq> Text ''-'')"

text \<open>\<^verbatim>\<open>df.dropna(axis=1, how='all', inplace=True)\<close>: keep the columns with some value present.\<close>

definition dropna_all :: "table \<Rightarrow> table" where
  "dropna_all t = t\<lparr>tcolumns := filter (\<lambda>(n, cs). list_ex notna cs) (tcolumns t)\<rparr>"

text \<open>\<^verbatim>\<open>df.loc[:, (df != '-').any(axis=0)]\<close>: keep the columns where some cell passes the test.\<close>

definition drop_sentinel :: "table \<Rightarrow> table" where
  "drop_sentinel t = t\<lparr>tcolumns := filter (\<lambda>(n, cs). list_ex ne_sentinel cs) (tcolumns t)\<rparr>"

text \<open>The two cleaning statements every operation runs on the frame it received.\<close>

definition clean_dataframe :: "table \<Rightarrow> table" where
  "clean_dataframe t = drop_sentinel (dropna_all t)"

text \<open>\<^verbatim>\<open>df.empty\<close>: some axis has length zero.\<close>

definition df_empty :: "table \<Rightarrow> bool" where
  "df_empty t = (tcolumns t = [] \<or> nrows t = 0)"

definition columns_tolist :: "table \<Rightarrow> string list" where
  "columns_tolist t = map fst (tcolumns t)"

text \<open>\<^verbatim>\<open>df.values.tolist()\<close>: one list per row of the index, holding that row's cell of each column.\<close>

definition values_tolist :: "table \<Rightarrow> cell list list" where
  "values_tolist t = map (\<lambda>i. map (\<lambda>(n, cs). cs ! i) (tcolumns t)) [0..<nrows t]"

section \<open>The result envelope\<close>

record envelope =
  status :: string
  data :: "cell list list option"
  column_names :: "string list option"
  message :: "string option"
  metadata :: "pyval option"

text \<open>\<^verbatim>\<open>_format_response\<close>: a key is present exactly when its argument is not \<^verbatim>\<open>None\<close>.\<close>

definition format_response ::
  "string \<Rightarrow> string list option \<Rightarrow> cell list list option \<Rightarrow> string option \<Rightarrow> pyval option \<Rightarrow> envelope" where
  "format_response st cols dat msg md =
     \<lparr>status = st, data = dat, column_names = cols, message = msg, metadata = md\<rparr>"

text \<open>\<^verbatim>\<open>_format_dataframe_result\<close> of the tool-serving variant: clean, then serialise.\<close>

definition format_dataframe_result :: "table \<Rightarrow> string \<Rightarrow> envelope" where
  "format_dataframe_result df msg =
     (let df = clean_dataframe df in
      \<lparr>status = ''success'', data = Some (values_tolist df),
       column_names = Some (columns_tolist df), message = Some msg, metadata = None\<rparr>)"

section \<open>The external data service\<close>

text \<open>
  One invocation of the data retrieval library: the library function's name and its
  keyword arguments in the order the source writes them. The library itself is a
  collaborator: \<open>nwis\<close> answers a call with a table, or raises, which is \<open>Inl\<close> of
  the exception's text (\<^verbatim>\<open>str(e)\<close>). \<open>str_of\<close> is Python's formatting of a value inside
  an f-string.
\<close>

datatype call = Call string "(string \<times> pyval) list"

record runtime =
  nwis :: "call \<Rightarrow> string + table"
  str_of :: "pyval \<Rightarrow> string"

text \<open>What an operation hands back: its envelope, and the calls it made to the service.\<close>

type_synonym outcome = "envelope \<times> call list"

text \<open>Decimal digits of \<^verbatim>\<open>len(data_values)\<close> inside a message.\<close>

fun str_nat :: "nat \<Rightarrow> string" where
  "str_nat n =
     (if n < 10 then [char_of (48 + n)]
      else str_nat (n div 10) @ [char_of (48 + n mod 10)])"

declare str_nat.simps [simp del]

section \<open>The operations of the dispatching wrapper\<close>

definition get_site_data :: "runtime \<Rightarrow> params \<Rightarrow> outcome" where
  "get_site_data rt ps =
     (let site_code = dict_get ps ''site_code'' in
      if \<not> truthy site_code then
        (format_response ''error'' None None (Some ''Site code is required'') None, [])
      else
        (let c = Call ''get_record'' [(''sites'', site_code), (''service'', PStr ''site'')] in
         case nwis rt c of
           Inl e \<Rightarrow>
             (format_response ''error'' None None
                (Some (''Error retrieving site data: '' @ e)) None, [c])
         | Inr df \<Rightarrow>
             (let site_info = clean_dataframe df in
              if \<not> df_empty site_info then
                (format_response ''success'' (Some (columns_tolist site_info))
                   (Some (values_tolist site_info))
                   (Some (''Successfully retrieved data for site '' @ str_of rt site_code)) None,
                 [c])
              else
                (format_response ''error'' None None
                   (Some (''No data found for site '' @ str_of rt site_code)) None, [c]))))"

definition get_daily_values :: "runtime \<Rightarrow> params \<Rightarrow> outcome" where
  "get_daily_values rt ps =
     (let site_code = dict_get ps ''site_code'';
          parameter_code = dict_get ps ''parameter_code'';
          statCd = dict_get ps ''statCd'' in
      if \<not> truthy site_code then
        (format_response ''error'' None None (Some ''site_code is required'') None, [])
      else
        (let start_date = dict_get ps ''start_date'';
             end_date = dict_get ps ''end_date'';
             c = Call ''get_dv'' [(''sites'', site_code), (''parameterCd'', parameter_code),
                                  (''statCd'', statCd), (''start'', start_date),
                                  (''end'', end_date)] in
         case nwis rt c of
           Inl e \<Rightarrow>
             (format_response ''error'' None None
                (Some (''Error retrieving daily values: '' @ e)) None, [c])
         | Inr df \<Rightarrow>
             (let daily_data = clean_dataframe df in
              if \<not> df_empty daily_data then
                (format_response ''success'' (Some (columns_tolist daily_data))
                   (Some (values_tolist daily_data))
                   (Some (''Successfully retrieved daily values for site '' @ str_of rt site_code))
                   None,
                 [c])
              else
                (format_response ''error'' None None
                   (Some ''No daily values found for the specified parameters'') None, [c]))))"

definition get_instantaneous_values :: "runtime \<Rightarrow> params \<Rightarrow> outcome" where
  "get_instantaneous_values rt ps =
     (let site_code = dict_get ps ''site_code'';
          parameter_code = dict_get ps ''parameter_code'';
          start_date = dict_get ps ''start_date'';
          end_date = dict_get ps ''end_date'' in
      if \<not> list_all truthy [site_code, parameter_code] then
        (format_response ''error'' None None
           (Some ''site_code and parameter_code are both required'') None, [])
      else
        (let c = Call ''get_iv'' [(''sites'', site_code), (''parameterCd'', parameter_code),
                                  (''start'', start_date), (''end'', end_date)] in
         case nwis rt c of
           Inl e \<Rightarrow>
             (format_response ''error'' None None
                (Some (''Error retrieving instantaneous values: '' @ e)) None, [c])
         | Inr df \<Rightarrow>
             (let iv_data = clean_dataframe df in
              if \<not> df_empty iv_data then
                (format_response ''success'' (Some (columns_tolist iv_data))
                   (Some (values_tolist iv_data))
                   (Some (''Successfully retrieved instantaneous values for site ''
                            @ str_of rt site_code)) None,
                 [c])
              else
                (format_response ''error'' None None
                   (Some ''No instantaneous values found for the specified parameters'') None,
                 [c]))))"

text \<open>
  The tail shared by the operations that do not test the frame for emptiness: call the
  service, clean the frame, and answer \<^verbatim>\<open>"success"\<close> with a message computed from the
  serialised rows; an exception becomes \<^verbatim>\<open>"error"\<close> with \<^verbatim>\<open>str(e)\<close> as the message.
\<close>

definition call_and_format :: "runtime \<Rightarrow> call \<Rightarrow> (table \<Rightarrow> table) \<Rightarrow> (cell list list \<Rightarrow> string) \<Rightarrow> outcome" where
  "call_and_format rt c pre msg =
     (case nwis rt c of
        Inl e \<Rightarrow> (format_response ''error'' None None (Some e) None, [c])
      | Inr df \<Rightarrow>
          (let df = clean_dataframe (pre df);
               column_names = columns_tolist df;
               data_values = values_tolist df in
           (format_response ''success'' (Some column_names) (Some data_values)
              (Some (msg data_values)) None, [c])))"

definition get_discharge_measurements :: "runtime \<Rightarrow> params \<Rightarrow> outcome" where
  "get_discharge_measurements rt ps =
     (let sites = split_if_str (dict_get ps ''sites'') in
      if \<not> truthy sites then
        (format_response ''error'' None None (Some ''Sites parameter is required'') None, [])
      else
        (let start = dict_get ps ''start'';
             end = dict_get ps ''end'' in
         call_and_format rt
           (Call ''get_discharge_measurements''
              [(''sites'', sites), (''start'', start), (''end'', end)])
           id
           (\<lambda>dv. ''Retrieved '' @ str_nat (length dv) @ '' discharge measurements'')))"

definition get_discharge_peaks :: "runtime \<Rightarrow> params \<Rightarrow> outcome" where
  "get_discharge_peaks rt ps =
     (let sites = split_if_str (dict_get ps ''sites'') in
      if \<not> truthy sites then
        (format_response ''error'' None None (Some ''Sites parameter is required'') None, [])
      else
        (let start = dict_get ps ''start'';
             end = dict_get ps ''end'' in
         call_and_format rt
           (Call ''get_discharge_peaks''
              [(''sites'', sites), (''start'', start), (''end'', end)])
           id
           (\<lambda>dv. ''Retrieved '' @ str_nat (length dv) @ '' discharge peaks'')))"

definition get_gwlevels :: "runtime \<Rightarrow> params \<Rightarrow> outcome" where
  "get_gwlevels rt ps =
     (let sites = split_if_str (dict_get ps ''sites'') in
      if \<not> truthy sites then
        (format_response ''error'' None None (Some ''Sites parameter is required'') None, [])
      else
        (let start = dict_get ps ''start'';
             end = dict_get ps ''end'' in
         call_and_format rt
           (Call ''get_gwlevels''
              [(''sites'', sites), (''start'', start), (''end'', end)])
           id
           (\<lambda>dv. ''Retrieved '' @ str_nat (length dv) @ '' groundwater level records'')))"

definition get_info :: "runtime \<Rightarrow> params \<Rightarrow> outcome" where
  "get_info rt ps =
     (let sites = split_if_str (dict_get ps ''sites'');
          stateCd = dict_get ps ''stateCd'';
          huc = dict_get ps ''huc'';
          bBox = dict_get ps ''bBox'';
          countyCd = dict_get ps ''countyCd'';
          startDt = dict_get ps ''startDt'';
          endDt = dict_get ps ''endDt'';
          period = dict_get ps ''period'';
          modifiedSince = dict_get ps ''modifiedSince'';
          parameterCd = dict_get ps ''parameterCd'';
          siteType = dict_get ps ''siteType'' in
      if \<not> list_ex truthy [sites, stateCd, huc, bBox, countyCd, startDt, endDt, period,
                              modifiedSince, parameterCd, siteType] then
        (format_response ''error'' None None
           (Some ''At least one of the parameters is required'') None, [])
      else
        call_and_format rt (Call ''get_info'' ps) id (\<lambda>dv. ''Retrieved site information''))"

definition get_pmcodes :: "runtime \<Rightarrow> params \<Rightarrow> outcome" where
  "get_pmcodes rt ps =
     (let parameterCd = dict_get ps ''parameterCd'' in
      if \<not> truthy parameterCd then
        (format_response ''error'' None None (Some ''Parameter code is required'') None, [])
      else
        call_and_format rt (Call ''get_pmcodes'' [(''parameterCd'', parameterCd)]) id
          (\<lambda>dv. ''Retrieved '' @ str_nat (length dv) @ '' parameter codes''))"

definition get_ratings :: "runtime \<Rightarrow> params \<Rightarrow> outcome" where
  "get_ratings rt ps =
     (let site = dict_get ps ''site'' in
      if \<not> truthy site then
        (format_response ''error'' None None (Some ''Site parameter is required'') None, [])
      else
        (let file_type = dict_get_default ps ''file_type'' (PStr ''base'') in
         call_and_format rt (Call ''get_ratings'' [(''site'', site), (''file_type'', file_type)]) id
           (\<lambda>dv. ''Retrieved '' @ str_nat (length dv) @ '' rating records for site ''
                    @ str_of rt site)))"

definition get_record :: "runtime \<Rightarrow> params \<Rightarrow> outcome" where
  "get_record rt ps =
     call_and_format rt (Call ''get_record'' ps) id
       (\<lambda>dv. ''Retrieved '' @ str_nat (length dv) @ '' records'')"

text \<open>
  \<^verbatim>\<open>get_stats\<close> splits \<^verbatim>\<open>sites\<close> into a local variable and then calls the service with
  \<^verbatim>\<open>**params\<close>, the mapping it was given.
\<close>

definition get_stats :: "runtime \<Rightarrow> params \<Rightarrow> outcome" where
  "get_stats rt ps =
     (let sites = split_if_str (dict_get ps ''sites'');
          parameterCd = dict_get ps ''parameterCd'';
          statReportType = dict_get ps ''statReportType'';
          statTypeCd = dict_get ps ''statTypeCd'' in
      call_and_format rt (Call ''get_stats'' ps) id (\<lambda>dv. ''Retrieved statistical data''))"

text \<open>\<^verbatim>\<open>df.drop(['state_cd', 'county_cd'], axis=1, errors='ignore', inplace=True)\<close>.\<close>

definition drop_columns :: "string list \<Rightarrow> table \<Rightarrow> table" where
  "drop_columns names t = t\<lparr>tcolumns := filter (\<lambda>(n, cs). n \<notin> set names) (tcolumns t)\<rparr>"

definition get_water_use :: "runtime \<Rightarrow> params \<Rightarrow> outcome" where
  "get_water_use rt ps =
     (let years = dict_get ps ''years'';
          years = (if truthy years then split_if_str years else years);
          state = dict_get ps ''state'';
          counties = dict_get ps ''counties'';
          categories = dict_get ps ''categories'' in
      if \<not> list_ex truthy [years, state, counties, categories] then
        (format_response ''error'' None None
           (Some ''At least one of the parameters is required'') None, [])
      else
        call_and_format rt (Call ''get_water_use'' ps)
          (drop_columns [''state_cd'', ''county_cd''])
          (\<lambda>dv. ''Retrieved water use data''))"

definition what_sites :: "runtime \<Rightarrow> params \<Rightarrow> outcome" where
  "what_sites rt ps =
     call_and_format rt (Call ''what_sites'' ps) id
       (\<lambda>dv. ''Found '' @ str_nat (length dv) @ '' sites matching the criteria'')"

section \<open>The dispatcher\<close>

text \<open>\<^verbatim>\<open>self.functions\<close>, in the insertion order of \<^verbatim>\<open>__init__\<close>.\<close>

definition wrapper_functions :: "(string \<times> (runtime \<Rightarrow> params \<Rightarrow> outcome)) list" where
  "wrapper_functions =
     [(''get_site_data'', get_site_data),
      (''get_daily_values'', get_daily_values),
      (''get_instantaneous_values'', get_instantaneous_values),
      (''get_discharge_measurements'', get_discharge_measurements),
      (''get_discharge_peaks'', get_discharge_peaks),
      (''get_gwlevels'', get_gwlevels),
      (''get_info'', get_info),
      (''get_pmcodes'', get_pmcodes),
      (''get_ratings'', get_ratings),
      (''get_record'', get_record),
      (''get_stats'', get_stats),
      (''get_water_use'', get_water_use),
      (''what_sites'', what_sites)]"

text \<open>\<^verbatim>\<open>sep.join(xs)\<close>.\<close>

fun join :: "string \<Rightarrow> string list \<Rightarrow> string" where
  "join sep [] = []"
| "join sep [x] = x"
| "join sep (x # y # ys) = x @ sep @ join sep (y # ys)"

definition function_names :: "string list" where
  "function_names = map fst wrapper_functions"

definition call_function :: "runtime \<Rightarrow> string \<Rightarrow> params \<Rightarrow> outcome" where
  "call_function rt function_name ps =
     (case map_of wrapper_functions function_name of
        Some f \<Rightarrow> f rt ps
      | None \<Rightarrow>
          (format_response ''error'' None None
             (Some (''Function '' @ [CHR 0x27] @ function_name @ [CHR 0x27]
                    @ '' not found. Available functions: '' @ join '', '' function_names))
             None, []))"

section \<open>The function catalog\<close>

text \<open>
  A descriptor as \<^verbatim>\<open>get_mcp_functions\<close> writes it: a name, a description and a JSON schema
  of the parameters. The \<^verbatim>\<open>"required"\<close> key is absent from some schemas, and
  \<^verbatim>\<open>"default"\<close> from most properties.
\<close>

record property =
  prop_type :: string
  prop_description :: string
  prop_default :: "string option"

record schema =
  schema_type :: string
  properties :: "(string \<times> property) list"
  required :: "string list option"

record descriptor =
  name :: string
  description :: string
  parameters :: schema

definition get_mcp_functions :: "descriptor list" where
  "get_mcp_functions =
     [\<lparr>name = ''get_site_data'',
       description = ''Get information about a specific USGS water monitoring site'',
       parameters = \<lparr>schema_type = ''object'',
         properties =
          [(''site_code'', \<lparr>prop_type = ''string'', prop_description = (''USGS site code (e.g., '' @ [CHR 0x27] @ ''09380000'' @ [CHR 0x27] @ '')''),
             prop_default = None\<rparr>)],
         required = Some [''site_code'']\<rparr>\<rparr>,
      \<lparr>name = ''get_daily_values'',
       description = ''Get daily values of water data'',
       parameters = \<lparr>schema_type = ''object'',
         properties =
          [(''site_code'', \<lparr>prop_type = ''string'', prop_description = ''USGS site code'',
             prop_default = None\<rparr>),
           (''parameter_code'', \<lparr>prop_type = ''string'', prop_description = (''USGS parameter code (e.g., '' @ [CHR 0x27] @ ''00060'' @ [CHR 0x27] @ '' for discharge)''),
             prop_default = None\<rparr>),
           (''statCd'', \<lparr>prop_type = ''string'', prop_description = ''USGS statistic code'',
             prop_default = None\<rparr>),
           (''start_date'', \<lparr>prop_type = ''string'', prop_description = ''Start date in YYYY-MM-DD format'',
             prop_default = None\<rparr>),
           (''end_date'', \<lparr>prop_type = ''string'', prop_description = ''End date in YYYY-MM-DD format'',
             prop_default = None\<rparr>)],
         required = Some [''site_code'']\<rparr>\<rparr>,
      \<lparr>name = ''get_instantaneous_values'',
       description = ''Get instantaneous values of water data'',
       parameters = \<lparr>schema_type = ''object'',
         properties =
          [(''site_code'', \<lparr>prop_type = ''string'', prop_description = ''USGS site code'',
             prop_default = None\<rparr>),
           (''parameter_code'', \<lparr>prop_type = ''string'', prop_description = (''USGS parameter code (e.g., '' @ [CHR 0x27] @ ''00060'' @ [CHR 0x27] @ '' for discharge)''),
             prop_default = None\<rparr>),
           (''start_date'', \<lparr>prop_type = ''string'', prop_description = ''Start date in YYYY-MM-DD format'',
             prop_default = None\<rparr>),
           (''end_date'', \<lparr>prop_type = ''string'', prop_description = ''End date in YYYY-MM-DD format'',
             prop_default = None\<rparr>)],
         required = Some [''site_code'', ''parameter_code'']\<rparr>\<rparr>,
      \<lparr>name = ''get_discharge_measurements'',
       description = ''Get discharge measurements from the waterdata service'',
       parameters = \<lparr>schema_type = ''object'',
         properties =
          [(''sites'', \<lparr>prop_type = ''string'', prop_description = ''USGS site code(s)'',
             prop_default = None\<rparr>),
           (''start'', \<lparr>prop_type = ''string'', prop_description = ''Start date in YYYY-MM-DD format'',
             prop_default = None\<rparr>),
           (''end'', \<lparr>prop_type = ''string'', prop_description = ''End date in YYYY-MM-DD format'',
             prop_default = None\<rparr>)],
         required = Some [''sites'']\<rparr>\<rparr>,
      \<lparr>name = ''get_discharge_peaks'',
       description = ''Get discharge peaks from the waterdata service'',
       parameters = \<lparr>schema_type = ''object'',
         properties =
          [(''sites'', \<lparr>prop_type = ''string'', prop_description = ''USGS site code(s)'',
             prop_default = None\<rparr>),
           (''start'', \<lparr>prop_type = ''string'', prop_description = ''Start date in YYYY-MM-DD format'',
             prop_default = None\<rparr>),
           (''end'', \<lparr>prop_type = ''string'', prop_description = ''End date in YYYY-MM-DD format'',
             prop_default = None\<rparr>)],
         required = Some [''sites'']\<rparr>\<rparr>,
      \<lparr>name = ''get_gwlevels'',
       description = ''Get groundwater levels from the waterdata service'',
       parameters = \<lparr>schema_type = ''object'',
         properties =
          [(''sites'', \<lparr>prop_type = ''string'', prop_description = ''USGS site code(s)'',
             prop_default = None\<rparr>),
           (''start'', \<lparr>prop_type = ''string'', prop_description = ''Start date in YYYY-MM-DD format'',
             prop_default = None\<rparr>),
           (''end'', \<lparr>prop_type = ''string'', prop_description = ''End date in YYYY-MM-DD format'',
             prop_default = None\<rparr>)],
         required = Some [''sites'']\<rparr>\<rparr>,
      \<lparr>name = ''get_ratings'',
       description = ''Get rating table for an active USGS streamgage'',
       parameters = \<lparr>schema_type = ''object'',
         properties =
          [(''site'', \<lparr>prop_type = ''string'', prop_description = ''USGS site code'',
             prop_default = None\<rparr>),
           (''file_type'', \<lparr>prop_type = ''string'', prop_description = ''File type (base, corr, exsa)'',
             prop_default = Some ''base''\<rparr>)],
         required = Some [''site'']\<rparr>\<rparr>,
      \<lparr>name = ''what_sites'',
       description = ''Search NWIS for sites within a region with specific data'',
       parameters = \<lparr>schema_type = ''object'',
         properties =
          [(''stateCd'', \<lparr>prop_type = ''string'', prop_description = (''Two-letter state code (e.g., '' @ [CHR 0x27] @ ''CA'' @ [CHR 0x27] @ '')''),
             prop_default = None\<rparr>),
           (''siteType'', \<lparr>prop_type = ''string'', prop_description = (''Type of site (e.g., '' @ [CHR 0x27] @ ''ST'' @ [CHR 0x27] @ '' for stream)''),
             prop_default = None\<rparr>),
           (''county'', \<lparr>prop_type = ''string'', prop_description = ''County code'',
             prop_default = None\<rparr>),
           (''huc'', \<lparr>prop_type = ''string'', prop_description = ''Hydrologic Unit Code'',
             prop_default = None\<rparr>)],
         required = None\<rparr>\<rparr>,
      \<lparr>name = ''get_stats'',
       description = ''Get water services statistics information'',
       parameters = \<lparr>schema_type = ''object'',
         properties =
          [(''sites'', \<lparr>prop_type = ''string'', prop_description = ''USGS site code(s)'',
             prop_default = None\<rparr>),
           (''parameterCd'', \<lparr>prop_type = ''string'', prop_description = (''USGS parameter code (e.g., '' @ [CHR 0x27] @ ''00060'' @ [CHR 0x27] @ '' for discharge)''),
             prop_default = None\<rparr>),
           (''statReportType'', \<lparr>prop_type = ''string'', prop_description = ''Type of statistical report'',
             prop_default = None\<rparr>),
           (''statTypeCd'', \<lparr>prop_type = ''string'', prop_description = ''Type of statistical data'',
             prop_default = None\<rparr>)],
         required = None\<rparr>\<rparr>,
      \<lparr>name = ''get_info'',
       description = ''Get site description information from NWIS'',
       parameters = \<lparr>schema_type = ''object'',
         properties =
          [(''sites'', \<lparr>prop_type = ''string'', prop_description = ''USGS site code(s)'',
             prop_default = None\<rparr>),
           (''stateCd'', \<lparr>prop_type = ''string'', prop_description = (''Two-letter state code (e.g., '' @ [CHR 0x27] @ ''CA'' @ [CHR 0x27] @ '')''),
             prop_default = None\<rparr>),
           (''huc'', \<lparr>prop_type = ''string'', prop_description = ''Hydrologic Unit Code(s)'',
             prop_default = None\<rparr>),
           (''bBox'', \<lparr>prop_type = ''string'', prop_description = ''Bounding box coordinates (minx,miny,maxx,maxy)'',
             prop_default = None\<rparr>),
           (''countyCd'', \<lparr>prop_type = ''string'', prop_description = ''County code(s)'',
             prop_default = None\<rparr>),
           (''startDt'', \<lparr>prop_type = ''string'', prop_description = ''Start date in YYYY-MM-DD format'',
             prop_default = None\<rparr>),
           (''endDt'', \<lparr>prop_type = ''string'', prop_description = ''End date in YYYY-MM-DD format'',
             prop_default = None\<rparr>),
           (''period'', \<lparr>prop_type = ''string'', prop_description = (''Period of record (e.g., '' @ [CHR 0x27] @ ''P7D'' @ [CHR 0x27] @ '' for 7 days)''),
             prop_default = None\<rparr>),
           (''modifiedSince'', \<lparr>prop_type = ''string'', prop_description = ''Modified since date in YYYY-MM-DD format'',
             prop_default = None\<rparr>),
           (''parameterCd'', \<lparr>prop_type = ''string'', prop_description = (''USGS parameter code (e.g., '' @ [CHR 0x27] @ ''00060'' @ [CHR 0x27] @ '' for discharge)''),
             prop_default = None\<rparr>),
           (''siteType'', \<lparr>prop_type = ''string'', prop_description = (''Type of site (e.g., '' @ [CHR 0x27] @ ''ST'' @ [CHR 0x27] @ '' for stream)''),
             prop_default = None\<rparr>),
           (''siteOutput'', \<lparr>prop_type = ''string'', prop_description = ''Site output format'',
             prop_default = None\<rparr>),
           (''seriesCatalogOutput'', \<lparr>prop_type = ''string'', prop_description = ''Series catalog output format'',
             prop_default = None\<rparr>)],
         required = None\<rparr>\<rparr>,
      \<lparr>name = ''get_pmcodes'',
       description = ''Get NWIS parameter codes'',
       parameters = \<lparr>schema_type = ''object'',
         properties =
          [(''parameterCd'', \<lparr>prop_type = ''string'', prop_description = ''USGS parameter code'',
             prop_default = None\<rparr>)],
         required = None\<rparr>\<rparr>,
      \<lparr>name = ''get_water_use'',
       description = ''Get water use data from USGS (NWIS)'',
       parameters = \<lparr>schema_type = ''object'',
         properties =
          [(''years'', \<lparr>prop_type = ''string'', prop_description = ''Years to retrieve data for'',
             prop_default = None\<rparr>),
           (''state'', \<lparr>prop_type = ''string'', prop_description = (''Two-letter state code (e.g., '' @ [CHR 0x27] @ ''CA'' @ [CHR 0x27] @ '')''),
             prop_default = None\<rparr>),
           (''counties'', \<lparr>prop_type = ''string'', prop_description = ''County codes'',
             prop_default = None\<rparr>),
           (''categories'', \<lparr>prop_type = ''string'', prop_description = ''Water use categories'',
             prop_default = None\<rparr>)],
         required = None\<rparr>\<rparr>]"

section \<open>The conversational driver\<close>

text \<open>
  The exceptions that nothing in the driver or the wrapper catches: \<^verbatim>\<open>x.get\<close> on a value
  that is not a dict (\<^verbatim>\<open>AttributeError\<close>), a list or dict used as a dictionary key
  (\<^verbatim>\<open>TypeError\<close>), what \<^verbatim>\<open>json.loads\<close> raises besides \<^verbatim>\<open>JSONDecodeError\<close>
  (\<^verbatim>\<open>RecursionError\<close> on deep nesting, a plain \<^verbatim>\<open>ValueError\<close> on an integer of too many
  digits), and any other exception, by the name of its class.
\<close>

datatype pyerror = AttributeError | TypeError | RecursionError | ValueError | OtherError string

text \<open>
  What \<^verbatim>\<open>json.loads\<close> does with a text: it returns the decoded value, raises
  \<^verbatim>\<open>json.JSONDecodeError\<close>, or raises another exception.
\<close>

datatype decoded = Decoded pyval | JSONDecodeError | Raised pyerror

text \<open>
  \<^verbatim>\<open>re.findall(r'<function_call>(.*?)</function_call>', text, re.DOTALL)\<close>: the
  matches are found left to right and do not overlap; each starts at the first opening
  tag after the previous match and ends at the first closing tag after that opening tag,
  and the group is the text between the two. \<open>after_prefix p s\<close> is the rest of
  \<open>s\<close> when \<open>s\<close> starts with \<open>p\<close>; \<open>partition_at pat s\<close> cuts \<open>s\<close> at the first
  occurrence of \<open>pat\<close>.
\<close>

fun after_prefix :: "string \<Rightarrow> string \<Rightarrow> string option" where
  "after_prefix [] s = Some s"
| "after_prefix (p # ps) [] = None"
| "after_prefix (p # ps) (c # cs) = (if p = c then after_prefix ps cs else None)"

fun partition_at :: "string \<Rightarrow> string \<Rightarrow> (string \<times> string) option" where
  "partition_at pat [] = (if pat = [] then Some ([], []) else None)"
| "partition_at pat (c # cs) =
     (case after_prefix pat (c # cs) of
        Some rest \<Rightarrow> Some ([], rest)
      | None \<Rightarrow>
          (case partition_at pat cs of
             None \<Rightarrow> None
           | Some (before, rest) \<Rightarrow> Some (c # before, rest)))"

lemma after_prefix_append: "after_prefix p s = Some r \<Longrightarrow> s = p @ r"
  by (induction p s rule: after_prefix.induct) (auto split: if_splits)

lemma partition_at_append: "partition_at pat s = Some (b, r) \<Longrightarrow> s = b @ pat @ r"
proof (induction pat s arbitrary: b r rule: partition_at.induct)
  case (1 pat)
  then show ?case by (auto split: if_splits)
next
  case (2 pat c cs)
  then show ?case
    by (auto split: option.splits dest: after_prefix_append)
qed

function findall_function_calls :: "string \<Rightarrow> string list" where
  "findall_function_calls text =
     (case partition_at ''<function_call>'' text of
        None \<Rightarrow> []
      | Some (skipped, rest) \<Rightarrow>
          (case partition_at ''</function_call>'' rest of
             None \<Rightarrow> []
           | Some (body, rest') \<Rightarrow> body # findall_function_calls rest'))"
  by pat_completeness auto
termination
proof (relation "measure length")
  show "wf (measure length)" by simp
next
  fix s :: string and x2 skipped rest x2a body rest'
  assume a: "partition_at ''<function_call>'' s = Some x2" "(skipped, rest) = x2"
    and b: "partition_at ''</function_call>'' rest = Some x2a" "(body, rest') = x2a"
  from a have "s = skipped @ ''<function_call>'' @ rest"
    by (auto dest: partition_at_append)
  then have "length s = length (skipped @ ''<function_call>'' @ rest)"
    by (rule arg_cong)
  then have l1: "length s = length skipped + 15 + length rest"
    by simp
  from b have "rest = body @ ''</function_call>'' @ rest'"
    by (auto dest: partition_at_append)
  then have "length rest = length (body @ ''</function_call>'' @ rest')"
    by (rule arg_cong)
  then have l2: "length rest = length body + 16 + length rest'"
    by simp
  from l1 l2 have "length rest' < length s" by arith
  then show "(rest', s) \<in> measure length" by simp
qed

declare findall_function_calls.simps [simp del]

text \<open>
  \<^verbatim>\<open>str.strip()\<close>: whitespace is removed at both ends. The characters are the code points
  below 256 that \<^verbatim>\<open>str.isspace\<close> accepts.
\<close>

definition is_space :: "char \<Rightarrow> bool" where
  "is_space c = (of_char c \<in> set [9, 10, 11, 12, 13, 28, 29, 30, 31, 32, 133, 160 :: nat])"

definition py_strip :: "string \<Rightarrow> string" where
  "py_strip s = rev (dropWhile is_space (rev (dropWhile is_space s)))"

text \<open>A message of the conversation history.\<close>

record chat_message =
  role :: string
  content :: string

text \<open>
  The driver's collaborators: the wrapper's data service, \<^verbatim>\<open>json.loads\<close>, the language
  model (a prompt in; the reply's text out, or the exception the call raised), the two
  prompt builders, whose text is built with \<^verbatim>\<open>json.dumps\<close> and decides nothing here, and
  the text of the \<^verbatim>\<open>TypeError\<close> that Python raises when \<^verbatim>\<open>**params\<close> unpacks a value that
  is not a mapping.
\<close>

record agent =
  mcp_wrapper :: runtime
  json_loads :: "string \<Rightarrow> decoded"
  client :: "string \<Rightarrow> pyerror + string"
  create_prompt :: "string \<Rightarrow> chat_message list \<Rightarrow> string"
  create_prompt_with_results ::
    "string \<Rightarrow> chat_message list \<Rightarrow> (pyval \<times> envelope) list \<Rightarrow> string"
  unpack_error :: "string \<Rightarrow> pyval \<Rightarrow> string"

text \<open>
  \<^verbatim>\<open>_extract_function_calls\<close>: each match is stripped and decoded, in order. A match that
  raises \<^verbatim>\<open>JSONDecodeError\<close> is skipped by the \<^verbatim>\<open>except json.JSONDecodeError: continue\<close>;
  any other exception of \<^verbatim>\<open>json.loads\<close> is not caught and ends the extraction.
\<close>

fun decode_matches :: "(string \<Rightarrow> decoded) \<Rightarrow> string list \<Rightarrow> pyerror + pyval list" where
  "decode_matches loads [] = Inr []"
| "decode_matches loads (m # ms) =
     (case loads (py_strip m) of
        Decoded function_call \<Rightarrow>
          (case decode_matches loads ms of
             Inl e \<Rightarrow> Inl e
           | Inr function_calls \<Rightarrow> Inr (function_call # function_calls))
      | JSONDecodeError \<Rightarrow> decode_matches loads ms
      | Raised e \<Rightarrow> Inl e)"

definition extract_function_calls :: "agent \<Rightarrow> string \<Rightarrow> pyerror + pyval list" where
  "extract_function_calls ag text = decode_matches (json_loads ag) (findall_function_calls text)"

text \<open>
  \<^verbatim>\<open>call_function\<close> on the values the driver hands it, which are whatever the decoded
  block holds. A list or dict as the name cannot be looked up in \<^verbatim>\<open>self.functions\<close>; any
  other value that is not a registered string gets the not-found envelope; a registered
  operation given parameters that are not a dict raises at its first \<^verbatim>\<open>params.get\<close>,
  except \<^verbatim>\<open>get_record\<close> and \<^verbatim>\<open>what_sites\<close>, whose \<^verbatim>\<open>**params\<close> fails inside their
  \<^verbatim>\<open>try\<close>.
\<close>

definition call_function_any :: "agent \<Rightarrow> pyval \<Rightarrow> pyval \<Rightarrow> pyerror + outcome" where
  "call_function_any ag function_name ps =
     (case function_name of
        PList l \<Rightarrow> Inl TypeError
      | PDict d \<Rightarrow> Inl TypeError
      | PStr s \<Rightarrow>
          (case ps of
             PDict d \<Rightarrow> Inr (call_function (mcp_wrapper ag) s d)
           | _ \<Rightarrow>
               (if s \<notin> set function_names then Inr (call_function (mcp_wrapper ag) s [])
                else if s = ''get_record'' \<or> s = ''what_sites'' then
                  Inr (format_response ''error'' None None (Some (unpack_error ag s ps)) None, [])
                else Inl AttributeError))
      | _ \<Rightarrow>
          Inr (format_response ''error'' None None
                 (Some (''Function '' @ [CHR 0x27] @ str_of (mcp_wrapper ag) function_name
                        @ [CHR 0x27] @ '' not found. Available functions: ''
                        @ join '', '' function_names))
                 None, []))"

text \<open>
  The loop of \<^verbatim>\<open>process_query\<close> over the decoded blocks. It returns the dispatches made,
  as the pairs of name and parameters handed to \<^verbatim>\<open>call_function\<close>, and either the
  collected results or the exception that ended the loop.
\<close>

fun run_function_calls ::
  "agent \<Rightarrow> pyval list \<Rightarrow> (pyval \<times> pyval) list \<times> (pyerror + (pyval \<times> envelope) list)" where
  "run_function_calls ag [] = ([], Inr [])"
| "run_function_calls ag (call # calls) =
     (case call of
        PDict d \<Rightarrow>
          (let function_name = dict_get d ''name'';
               ps = dict_get_default d ''parameters'' (PDict []) in
           case call_function_any ag function_name ps of
             Inl e \<Rightarrow> ([(function_name, ps)], Inl e)
           | Inr result \<Rightarrow>
               (case run_function_calls ag calls of
                  (dispatched, Inl e) \<Rightarrow> ((function_name, ps) # dispatched, Inl e)
                | (dispatched, Inr results) \<Rightarrow>
                    ((function_name, ps) # dispatched,
                     Inr ((function_name, fst result) # results))))
      | _ \<Rightarrow> ([], Inl AttributeError))"

text \<open>
  What a query leaves behind: the final answer or the exception that escaped, the
  conversation history, and the dispatches made.
\<close>

record query_outcome =
  answer :: "pyerror + string"
  history :: "chat_message list"
  dispatches :: "(pyval \<times> pyval) list"

definition process_query :: "agent \<Rightarrow> chat_message list \<Rightarrow> string \<Rightarrow> query_outcome" where
  "process_query ag messages query =
     (let messages = messages @ [\<lparr>role = ''user'', content = query\<rparr>];
          prompt = create_prompt ag query messages in
      case client ag prompt of
        Inl e \<Rightarrow> \<lparr>answer = Inl e, history = messages, dispatches = []\<rparr>
      | Inr assistant_message \<Rightarrow>
          (case extract_function_calls ag assistant_message of
             Inl e \<Rightarrow> \<lparr>answer = Inl e, history = messages, dispatches = []\<rparr>
           | Inr function_calls \<Rightarrow>
               if function_calls \<noteq> [] then
                 (case run_function_calls ag function_calls of
                    (dispatched, Inl e) \<Rightarrow>
                      \<lparr>answer = Inl e, history = messages, dispatches = dispatched\<rparr>
                  | (dispatched, Inr results) \<Rightarrow>
                      (let prompt_with_results =
                             create_prompt_with_results ag query messages results in
                       case client ag prompt_with_results of
                         Inl e \<Rightarrow>
                           \<lparr>answer = Inl e, history = messages, dispatches = dispatched\<rparr>
                       | Inr final_response \<Rightarrow>
                           \<lparr>answer = Inr final_response,
                            history =
                              messages @ [\<lparr>role = ''assistant'', content = final_response\<rparr>],
                            dispatches = dispatched\<rparr>))
               else
                 \<lparr>answer = Inr assistant_message,
                  history =
                    messages @ [\<lparr>role = ''assistant'', content = assistant_message\<rparr>],
                  dispatches = []\<rparr>))"

text \<open>
  The name and parameters the driver reads from a decoded block, when it is a dict; and
  the shape the prompt asks the model for: a dict whose name is a string and whose
  parameters, when given, are a dict.
\<close>

definition call_args :: "pyval \<Rightarrow> (pyval \<times> pyval) option" where
  "call_args call =
     (case call of
        PDict d \<Rightarrow> Some (dict_get d ''name'', dict_get_default d ''parameters'' (PDict []))
      | _ \<Rightarrow> None)"

definition is_function_call :: "pyval \<Rightarrow> bool" where
  "is_function_call call =
     (case call_args call of
        Some (PStr s, PDict d) \<Rightarrow> True
      | _ \<Rightarrow> False)"

section \<open>Sample inputs\<close>

text \<open>
  A stand-in for Python's \<^verbatim>\<open>str\<close> that is exact on strings, a frame with two columns and
  no rows, a data service that answers every call with it, and a frame whose first
  column holds only a missing value and the placeholder \<^verbatim>\<open>'-'\<close>.
\<close>

definition sample_str_of :: "pyval \<Rightarrow> string" where
  "sample_str_of v = (case v of PStr s \<Rightarrow> s | _ \<Rightarrow> ''?'')"

definition empty_frame :: table where
  "empty_frame = \<lparr>tcolumns = [(''site_no'', []), (''measurement_dt'', [])], nrows = 0\<rparr>"

definition empty_runtime :: runtime where
  "empty_runtime = \<lparr>nwis = (\<lambda>c. Inr empty_frame), str_of = sample_str_of\<rparr>"

definition mixed_frame :: table where
  "mixed_frame =
     \<lparr>tcolumns = [(''qualifier'', [NaN, Text ''-'']),
                  (''remark'', [NaN, NaN]),
                  (''agency_cd'', [Text ''-'', Text ''-'']),
                  (''site_no'', [Text ''09380000'', Text ''09380000''])],
      nrows = 2\<rparr>"

text \<open>A data service whose every call raises.\<close>

definition failing_runtime :: runtime where
  "failing_runtime = \<lparr>nwis = (\<lambda>c. Inl ''HTTP 503''), str_of = sample_str_of\<rparr>"

text \<open>
  A decoder that agrees with \<^verbatim>\<open>json.loads\<close> on the four texts decoded below: an empty
  array, one function call object, a run of 1000 opening brackets, on which
  \<^verbatim>\<open>json.loads\<close> raises \<^verbatim>\<open>RecursionError\<close>, and the truncated object \<^verbatim>\<open>{"name":\<close>, on
  which it raises \<^verbatim>\<open>JSONDecodeError\<close>. The sample driver's model answers the first prompt
  with a given reply.
\<close>

definition sample_json_loads :: "string \<Rightarrow> decoded" where
  "sample_json_loads s =
     (if s = ''[]'' then Decoded (PList [])
      else if s = ''{\"name\": \"get_ratings\", \"parameters\": {}}'' then
        Decoded (PDict [(''name'', PStr ''get_ratings''), (''parameters'', PDict [])])
      else if s = replicate 1000 (CHR ''['') then Raised RecursionError
      else JSONDecodeError)"

definition sample_agent :: "string \<Rightarrow> agent" where
  "sample_agent reply =
     \<lparr>mcp_wrapper = failing_runtime, json_loads = sample_json_loads,
      client = (\<lambda>prompt. if prompt = ''first'' then Inr reply else Inr ''done''),
      create_prompt = (\<lambda>query messages. ''first''),
      create_prompt_with_results = (\<lambda>query messages results. ''second''),
      unpack_error = (\<lambda>f v. ''argument after ** must be a mapping'')\<rparr>"

definition scenario_reply :: string where
  "scenario_reply =
     ''Sure. <function_call> {\"name\": \"get_ratings\", \"parameters\": {}} </function_call> and <function_call>{\"name\": </function_call>''"

definition array_reply :: string where
  "array_reply = ''<function_call>[]</function_call>''"

definition nested_reply :: string where
  "nested_reply = ''<function_call>'' @ replicate 1000 (CHR ''['') @ ''</function_call>''"

section \<open>The result sanitizer\<close>

lemma clean_nrows: "nrows (clean_dataframe t) = nrows t"
  by (simp add: clean_dataframe_def drop_sentinel_def dropna_all_def)

lemma clean_columns:
  "tcolumns (clean_dataframe t) =
     filter (\<lambda>(n, cs). list_ex ne_sentinel cs)
       (filter (\<lambda>(n, cs). list_ex notna cs) (tcolumns t))"
  by (simp add: clean_dataframe_def drop_sentinel_def dropna_all_def)

lemma clean_subseq: "subseq (tcolumns (clean_dataframe t)) (tcolumns t)"
  unfolding clean_columns
  by (meson subseq_filter_left subseq_order.order_trans)

lemma row_subseq:
  "subseq (map (\<lambda>(n, cs). cs ! i) (tcolumns (clean_dataframe t)))
     (map (\<lambda>(n, cs). cs ! i) (tcolumns t))"
  by (rule subseq_map) (rule clean_subseq)


lemma df_empty_clean: "df_empty t \<Longrightarrow> df_empty (clean_dataframe t)"
  by (auto simp: df_empty_def clean_columns clean_nrows)

text \<open>
  Claim C3, as stated: every column that survives the sanitizer has a value that is
  neither missing nor the placeholder \<^verbatim>\<open>"-"\<close>. It fails: the two filters are separate,
  a missing value passes the test \<^verbatim>\<open>!= '-'\<close>, and so a column holding a missing value
  and a placeholder survives both, although none of its values is a real one.
\<close>

theorem sanitizer_mixed_column_survives:
  "tcolumns (clean_dataframe mixed_frame) =
      [(''qualifier'', [NaN, Text ''-'']), (''site_no'', [Text ''09380000'', Text ''09380000''])]
   \<and> \<not> list_all (\<lambda>(n, cs). list_ex (\<lambda>c. c \<noteq> NaN \<and> c \<noteq> Text ''-'') cs)
          (tcolumns (clean_dataframe mixed_frame))"
  by (simp add: clean_columns mixed_frame_def notna_def ne_sentinel_def)

lemma clean_columns_kept:
  "tcolumns (clean_dataframe t) =
     filter (\<lambda>(n, cs). (\<exists>c \<in> set cs. c \<noteq> NaN) \<and> (\<exists>c \<in> set cs. c \<noteq> Text ''-''))
       (tcolumns t)"
proof -
  have "filter (\<lambda>(n, cs). list_ex ne_sentinel cs)
          (filter (\<lambda>(n, cs). list_ex notna cs) xs) =
        filter (\<lambda>(n, cs). (\<exists>c \<in> set cs. c \<noteq> NaN) \<and> (\<exists>c \<in> set cs. c \<noteq> Text ''-'')) xs"
    for xs :: "(string \<times> cell list) list"
    by (induction xs) (auto simp: list_ex_iff notna_def ne_sentinel_def)
  then show ?thesis
    by (simp add: clean_columns)
qed

text \<open>
  Claim C3, amended: for every table, the columns that survive the sanitizer are exactly
  the input's columns that have some value that is not missing and some value that
  differs from the placeholder \<^verbatim>\<open>"-"\<close> (not necessarily the same one), in the input's
  order and with their cells untouched: every such column is kept, and every kept column
  is such a column. The number of rows is the input's, in the frame and in the serialised
  data, and every serialised row is the input's row of the same position with the cells
  of the removed columns left out.
\<close>

theorem sanitizer_surviving_columns:
  "(\<forall>(n, cs) \<in> set (tcolumns (clean_dataframe t)).
      (\<exists>c \<in> set cs. c \<noteq> NaN) \<and> (\<exists>c \<in> set cs. c \<noteq> Text ''-''))
   \<and> (\<forall>(n, cs) \<in> set (tcolumns t).
      (\<exists>c \<in> set cs. c \<noteq> NaN) \<and> (\<exists>c \<in> set cs. c \<noteq> Text ''-'') \<longrightarrow>
      (n, cs) \<in> set (tcolumns (clean_dataframe t)))
   \<and> tcolumns (clean_dataframe t) =
       filter (\<lambda>(n, cs). (\<exists>c \<in> set cs. c \<noteq> NaN) \<and> (\<exists>c \<in> set cs. c \<noteq> Text ''-''))
         (tcolumns t)
   \<and> subseq (tcolumns (clean_dataframe t)) (tcolumns t)
   \<and> nrows (clean_dataframe t) = nrows t
   \<and> data (format_dataframe_result t msg) = Some (values_tolist (clean_dataframe t))
   \<and> column_names (format_dataframe_result t msg) = Some (map fst (tcolumns (clean_dataframe t)))
   \<and> length (values_tolist (clean_dataframe t)) = nrows t
   \<and> (\<forall>i < nrows t. subseq (values_tolist (clean_dataframe t) ! i) (values_tolist t ! i))"
proof (intro conjI)
  show "\<forall>(n, cs) \<in> set (tcolumns (clean_dataframe t)).
      (\<exists>c \<in> set cs. c \<noteq> NaN) \<and> (\<exists>c \<in> set cs. c \<noteq> Text ''-'')"
    unfolding clean_columns_kept by auto
  show "\<forall>(n, cs) \<in> set (tcolumns t).
      (\<exists>c \<in> set cs. c \<noteq> NaN) \<and> (\<exists>c \<in> set cs. c \<noteq> Text ''-'') \<longrightarrow>
      (n, cs) \<in> set (tcolumns (clean_dataframe t))"
    unfolding clean_columns_kept by auto
  show "tcolumns (clean_dataframe t) =
       filter (\<lambda>(n, cs). (\<exists>c \<in> set cs. c \<noteq> NaN) \<and> (\<exists>c \<in> set cs. c \<noteq> Text ''-''))
         (tcolumns t)"
    by (rule clean_columns_kept)
  show "subseq (tcolumns (clean_dataframe t)) (tcolumns t)"
    by (rule clean_subseq)
  show "nrows (clean_dataframe t) = nrows t"
    by (rule clean_nrows)
  show "data (format_dataframe_result t msg) = Some (values_tolist (clean_dataframe t))"
    by (simp add: format_dataframe_result_def Let_def)
  show "column_names (format_dataframe_result t msg) = Some (map fst (tcolumns (clean_dataframe t)))"
    by (simp add: format_dataframe_result_def Let_def columns_tolist_def)
  show "length (values_tolist (clean_dataframe t)) = nrows t"
    by (simp add: values_tolist_def clean_nrows)
  show "\<forall>i < nrows t. subseq (values_tolist (clean_dataframe t) ! i) (values_tolist t ! i)"
    by (simp add: values_tolist_def clean_nrows row_subseq)
qed

text \<open>
  The amended claim C3 at a frame of four columns: the column of a missing value and a
  placeholder is kept, the all-missing and the all-placeholder columns are removed.
\<close>

theorem sanitizer_surviving_columns_witness:
  "list_all (\<lambda>(n, cs). list_ex notna cs \<and> list_ex ne_sentinel cs)
     (tcolumns (clean_dataframe mixed_frame))
   \<and> tcolumns (clean_dataframe mixed_frame) =
       [(''qualifier'', [NaN, Text ''-'']), (''site_no'', [Text ''09380000'', Text ''09380000''])]
   \<and> (''qualifier'', [NaN, Text ''-'']) \<in> set (tcolumns mixed_frame)
   \<and> (''qualifier'', [NaN, Text ''-'']) \<in> set (tcolumns (clean_dataframe mixed_frame))
   \<and> nrows (clean_dataframe mixed_frame) = 2
   \<and> (0::nat) < nrows mixed_frame
   \<and> values_tolist (clean_dataframe mixed_frame) ! 0 = [NaN, Text ''09380000'']
   \<and> values_tolist mixed_frame ! 0 = [NaN, NaN, Text ''-'', Text ''09380000'']
   \<and> subseq (values_tolist (clean_dataframe mixed_frame) ! 0) (values_tolist mixed_frame ! 0)"
  using sanitizer_surviving_columns [of mixed_frame "''ok''"]
  by (simp add: values_tolist_def clean_columns clean_nrows mixed_frame_def notna_def
      ne_sentinel_def)

section \<open>Operations on an empty table\<close>

lemma call_and_format_raises:
  "nwis rt c = Inl e \<Longrightarrow>
   call_and_format rt c pre msg = (format_response ''error'' None None (Some e) None, [c])"
  by (simp add: call_and_format_def)

lemma call_and_format_calls: "snd (call_and_format rt c pre msg) = [c]"
  by (simp add: call_and_format_def Let_def split: sum.splits)

lemma str_nat_0: "str_nat 0 = ''0''"
  by code_simp








section \<open>An empty table after a successful call\<close>

text \<open>
  Claim C1, as stated: every operation answers an empty table with status \<^verbatim>\<open>"error"\<close>.
  It fails for the operations that serialise the frame without testing it: discharge
  measurements, given a service that returns a frame without rows, answers
  \<^verbatim>\<open>"success"\<close> with empty \<^verbatim>\<open>column_names\<close> and \<^verbatim>\<open>data\<close>.
\<close>

theorem empty_table_success_example:
  "nwis empty_runtime (Call ''get_discharge_measurements''
       [(''sites'', PList [PStr ''01594440'']), (''start'', PNone), (''end'', PNone)]) = Inr empty_frame
   \<and> df_empty empty_frame
   \<and> get_discharge_measurements empty_runtime [(''sites'', PStr ''01594440'')] =
       (\<lparr>status = ''success'', data = Some [], column_names = Some [],
         message = Some ''Retrieved 0 discharge measurements'', metadata = None\<rparr>,
        [Call ''get_discharge_measurements''
           [(''sites'', PList [PStr ''01594440'']), (''start'', PNone), (''end'', PNone)]])"
  by (simp add: get_discharge_measurements_def Let_def call_and_format_def dict_get_def
      dict_get_default_def empty_runtime_def empty_frame_def df_empty_def clean_columns clean_nrows
      values_tolist_def columns_tolist_def format_response_def str_nat_0)

text \<open>
  Claim C1, amended: for site lookup, daily values and instantaneous values, the three
  operations that test \<^verbatim>\<open>df.empty\<close>, when the service call \<open>c\<close> the operation makes
  succeeds with an empty table, the envelope has status \<^verbatim>\<open>"error"\<close> and an explanatory
  message, and neither \<^verbatim>\<open>column_names\<close> nor \<^verbatim>\<open>data\<close>.
\<close>

theorem empty_table_is_error:
  assumes "nwis rt c = Inr df" and "df_empty df"
  shows "(snd (get_site_data rt ps) = [c] \<longrightarrow>
            fst (get_site_data rt ps) =
              \<lparr>status = ''error'', data = None, column_names = None,
               message = Some (''No data found for site '' @ str_of rt (dict_get ps ''site_code'')),
               metadata = None\<rparr>)
       \<and> (snd (get_daily_values rt ps) = [c] \<longrightarrow>
            fst (get_daily_values rt ps) =
              \<lparr>status = ''error'', data = None, column_names = None,
               message = Some ''No daily values found for the specified parameters'',
               metadata = None\<rparr>)
       \<and> (snd (get_instantaneous_values rt ps) = [c] \<longrightarrow>
            fst (get_instantaneous_values rt ps) =
              \<lparr>status = ''error'', data = None, column_names = None,
               message = Some ''No instantaneous values found for the specified parameters'',
               metadata = None\<rparr>)"
proof (intro conjI impI)
  have e: "df_empty (clean_dataframe df)"
    using assms(2) by (rule df_empty_clean)
  {
    assume "snd (get_site_data rt ps) = [c]"
    then show "fst (get_site_data rt ps) =
              \<lparr>status = ''error'', data = None, column_names = None,
               message = Some (''No data found for site '' @ str_of rt (dict_get ps ''site_code'')),
               metadata = None\<rparr>"
      using assms(1) e
      by (auto simp: get_site_data_def Let_def format_response_def split: if_splits sum.splits)
  }
  {
    assume "snd (get_daily_values rt ps) = [c]"
    then show "fst (get_daily_values rt ps) =
              \<lparr>status = ''error'', data = None, column_names = None,
               message = Some ''No daily values found for the specified parameters'',
               metadata = None\<rparr>"
      using assms(1) e
      by (auto simp: get_daily_values_def Let_def format_response_def split: if_splits sum.splits)
  }
  {
    assume "snd (get_instantaneous_values rt ps) = [c]"
    then show "fst (get_instantaneous_values rt ps) =
              \<lparr>status = ''error'', data = None, column_names = None,
               message = Some ''No instantaneous values found for the specified parameters'',
               metadata = None\<rparr>"
      using assms(1) e
      by (auto simp: get_instantaneous_values_def Let_def format_response_def
          split: if_splits sum.splits)
  }
qed

text \<open>The amended claim C1 at a site lookup whose frame has no rows.\<close>

theorem empty_table_is_error_witness:
  "nwis empty_runtime (Call ''get_record'' [(''sites'', PStr ''09380000''), (''service'', PStr ''site'')])
      = Inr empty_frame
   \<and> df_empty empty_frame
   \<and> snd (get_site_data empty_runtime [(''site_code'', PStr ''09380000'')]) =
       [Call ''get_record'' [(''sites'', PStr ''09380000''), (''service'', PStr ''site'')]]
   \<and> fst (get_site_data empty_runtime [(''site_code'', PStr ''09380000'')]) =
       \<lparr>status = ''error'', data = None, column_names = None,
        message = Some ''No data found for site 09380000'', metadata = None\<rparr>"
  using empty_table_is_error [of empty_runtime
      "Call ''get_record'' [(''sites'', PStr ''09380000''), (''service'', PStr ''site'')]"
      empty_frame "[(''site_code'', PStr ''09380000'')]"]
  by (simp add: get_site_data_def Let_def dict_get_def dict_get_default_def empty_runtime_def
      empty_frame_def df_empty_def clean_columns clean_nrows format_response_def sample_str_of_def)

section \<open>An exception raised by the service\<close>

text \<open>
  Claim C5, as stated: the message of the envelope equals the exception's text. It fails
  for site lookup, which puts \<^verbatim>\<open>"Error retrieving site data: "\<close> before the text.
\<close>

theorem exception_prefixed_example:
  "nwis failing_runtime (Call ''get_record'' [(''sites'', PStr ''09380000''), (''service'', PStr ''site'')])
      = Inl ''HTTP 503''
   \<and> get_site_data failing_runtime [(''site_code'', PStr ''09380000'')] =
       (\<lparr>status = ''error'', data = None, column_names = None,
         message = Some ''Error retrieving site data: HTTP 503'', metadata = None\<rparr>,
        [Call ''get_record'' [(''sites'', PStr ''09380000''), (''service'', PStr ''site'')]])
   \<and> message (fst (get_site_data failing_runtime [(''site_code'', PStr ''09380000'')]))
       \<noteq> Some ''HTTP 503''"
  by (simp add: get_site_data_def Let_def dict_get_def dict_get_default_def failing_runtime_def
      format_response_def)

lemma guarded_call_raises:
  assumes "nwis rt c = Inl e"
    and "snd (if g then (r, []) else call_and_format rt c' pre msg) = [c]"
  shows "fst (if g then (r, []) else call_and_format rt c' pre msg) =
           \<lparr>status = ''error'', data = None, column_names = None, message = Some e,
            metadata = None\<rparr>"
proof -
  from assms(2) have g: "\<not> g" and c: "c' = c"
    by (auto simp: call_and_format_calls split: if_splits)
  show ?thesis
    using g assms(1) by (simp add: c call_and_format_raises format_response_def)
qed

text \<open>
  Claim C5, amended: when the service call \<open>c\<close> an operation makes raises with text
  \<open>e\<close>, the envelope has status \<^verbatim>\<open>"error"\<close> and neither \<^verbatim>\<open>column_names\<close> nor
  \<^verbatim>\<open>data\<close>; its message is \<open>e\<close> itself for the ten operations from discharge
  measurements to site search, and \<open>e\<close> after the prefix \<^verbatim>\<open>"Error retrieving site data: "\<close>,
  \<^verbatim>\<open>"Error retrieving daily values: "\<close> or \<^verbatim>\<open>"Error retrieving instantaneous values: "\<close>
  for site lookup, daily values and instantaneous values.
\<close>

theorem service_exception_envelope:
  assumes "nwis rt c = Inl e"
  shows "(snd (get_site_data rt ps) = [c] \<longrightarrow>
            fst (get_site_data rt ps) =
              \<lparr>status = ''error'', data = None, column_names = None,
               message = Some (''Error retrieving site data: '' @ e), metadata = None\<rparr>)
       \<and> (snd (get_daily_values rt ps) = [c] \<longrightarrow>
            fst (get_daily_values rt ps) =
              \<lparr>status = ''error'', data = None, column_names = None,
               message = Some (''Error retrieving daily values: '' @ e), metadata = None\<rparr>)
       \<and> (snd (get_instantaneous_values rt ps) = [c] \<longrightarrow>
            fst (get_instantaneous_values rt ps) =
              \<lparr>status = ''error'', data = None, column_names = None,
               message = Some (''Error retrieving instantaneous values: '' @ e),
               metadata = None\<rparr>)
       \<and> (\<forall>f \<in> set [get_discharge_measurements, get_discharge_peaks, get_gwlevels, get_info,
                       get_pmcodes, get_ratings, get_record, get_stats, get_water_use,
                       what_sites].
            snd (f rt ps) = [c] \<longrightarrow>
            fst (f rt ps) =
              \<lparr>status = ''error'', data = None, column_names = None, message = Some e,
               metadata = None\<rparr>)"
proof (intro conjI impI ballI)
  {
    assume "snd (get_site_data rt ps) = [c]"
    then show "fst (get_site_data rt ps) =
              \<lparr>status = ''error'', data = None, column_names = None,
               message = Some (''Error retrieving site data: '' @ e), metadata = None\<rparr>"
      using assms
      by (auto simp: get_site_data_def Let_def format_response_def split: if_splits sum.splits)
  }
  {
    assume "snd (get_daily_values rt ps) = [c]"
    then show "fst (get_daily_values rt ps) =
              \<lparr>status = ''error'', data = None, column_names = None,
               message = Some (''Error retrieving daily values: '' @ e), metadata = None\<rparr>"
      using assms
      by (auto simp: get_daily_values_def Let_def format_response_def split: if_splits sum.splits)
  }
  {
    assume "snd (get_instantaneous_values rt ps) = [c]"
    then show "fst (get_instantaneous_values rt ps) =
              \<lparr>status = ''error'', data = None, column_names = None,
               message = Some (''Error retrieving instantaneous values: '' @ e),
               metadata = None\<rparr>"
      using assms
      by (auto simp: get_instantaneous_values_def Let_def format_response_def
          split: if_splits sum.splits)
  }
  fix f
  assume f: "f \<in> set [get_discharge_measurements, get_discharge_peaks, get_gwlevels, get_info,
                       get_pmcodes, get_ratings, get_record, get_stats, get_water_use,
                       what_sites]"
    and s: "snd (f rt ps) = [c]"
  have direct: "fst (call_and_format rt c' pre msg) =
           \<lparr>status = ''error'', data = None, column_names = None, message = Some e,
            metadata = None\<rparr>"
    if "snd (call_and_format rt c' pre msg) = [c]" for c' pre msg
    using guarded_call_raises [OF assms, of False undefined c' pre msg] that by simp
  from f consider "f = get_discharge_measurements" | "f = get_discharge_peaks"
    | "f = get_gwlevels" | "f = get_info" | "f = get_pmcodes" | "f = get_ratings"
    | "f = get_record" | "f = get_stats" | "f = get_water_use" | "f = what_sites"
    by auto
  then show "fst (f rt ps) =
              \<lparr>status = ''error'', data = None, column_names = None, message = Some e,
               metadata = None\<rparr>"
  proof cases
    case 1
    show ?thesis
      using s unfolding 1 get_discharge_measurements_def Let_def
      by (rule guarded_call_raises [OF assms])
  next
    case 2
    show ?thesis
      using s unfolding 2 get_discharge_peaks_def Let_def
      by (rule guarded_call_raises [OF assms])
  next
    case 3
    show ?thesis
      using s unfolding 3 get_gwlevels_def Let_def
      by (rule guarded_call_raises [OF assms])
  next
    case 4
    show ?thesis
      using s unfolding 4 get_info_def Let_def
      by (rule guarded_call_raises [OF assms])
  next
    case 5
    show ?thesis
      using s unfolding 5 get_pmcodes_def Let_def
      by (rule guarded_call_raises [OF assms])
  next
    case 6
    show ?thesis
      using s unfolding 6 get_ratings_def Let_def
      by (rule guarded_call_raises [OF assms])
  next
    case 7
    show ?thesis
      using s unfolding 7 get_record_def by (rule direct)
  next
    case 8
    show ?thesis
      using s unfolding 8 get_stats_def Let_def by (rule direct)
  next
    case 9
    show ?thesis
      using s unfolding 9 get_water_use_def Let_def
      by (rule guarded_call_raises [OF assms])
  next
    case 10
    show ?thesis
      using s unfolding 10 what_sites_def by (rule direct)
  qed
qed

text \<open>The amended claim C5 at a service that raises: daily values and the generic record fetch.\<close>

theorem service_exception_envelope_witness:
  "nwis failing_runtime (Call ''get_dv'' [(''sites'', PStr ''09380000''), (''parameterCd'', PNone),
        (''statCd'', PNone), (''start'', PNone), (''end'', PNone)]) = Inl ''HTTP 503''
   \<and> snd (get_daily_values failing_runtime [(''site_code'', PStr ''09380000'')]) =
       [Call ''get_dv'' [(''sites'', PStr ''09380000''), (''parameterCd'', PNone),
          (''statCd'', PNone), (''start'', PNone), (''end'', PNone)]]
   \<and> fst (get_daily_values failing_runtime [(''site_code'', PStr ''09380000'')]) =
       \<lparr>status = ''error'', data = None, column_names = None,
        message = Some ''Error retrieving daily values: HTTP 503'', metadata = None\<rparr>
   \<and> snd (get_record failing_runtime [(''site_code'', PStr ''09380000'')]) =
       [Call ''get_record'' [(''site_code'', PStr ''09380000'')]]
   \<and> fst (get_record failing_runtime [(''site_code'', PStr ''09380000'')]) =
       \<lparr>status = ''error'', data = None, column_names = None,
        message = Some ''HTTP 503'', metadata = None\<rparr>"
  using service_exception_envelope [of failing_runtime
      "Call ''get_dv'' [(''sites'', PStr ''09380000''), (''parameterCd'', PNone),
          (''statCd'', PNone), (''start'', PNone), (''end'', PNone)]" "''HTTP 503''"
      "[(''site_code'', PStr ''09380000'')]"]
    service_exception_envelope [of failing_runtime
      "Call ''get_record'' [(''site_code'', PStr ''09380000'')]" "''HTTP 503''"
      "[(''site_code'', PStr ''09380000'')]"]
  by (simp add: get_daily_values_def get_record_def Let_def call_and_format_calls dict_get_def
      dict_get_default_def failing_runtime_def)

section \<open>Required parameters\<close>

text \<open>
  Claim C7: each of the nine operations with required parameters, called without one
  (the key is absent or holds \<^verbatim>\<open>None\<close>, so that \<^verbatim>\<open>params.get\<close> gives \<^verbatim>\<open>None\<close>), returns
  an envelope with status \<^verbatim>\<open>"error"\<close> whose message names the requirement, and makes no
  call to the service. Water-use data requires one of four parameters, and is refused
  when all four are missing.
\<close>

theorem missing_required_parameter:
  "(dict_get ps ''site_code'' = PNone \<longrightarrow>
      get_site_data rt ps =
        (format_response ''error'' None None (Some ''Site code is required'') None, []))
   \<and> (dict_get ps ''site_code'' = PNone \<longrightarrow>
      get_daily_values rt ps =
        (format_response ''error'' None None (Some ''site_code is required'') None, []))
   \<and> (dict_get ps ''site_code'' = PNone \<or> dict_get ps ''parameter_code'' = PNone \<longrightarrow>
      get_instantaneous_values rt ps =
        (format_response ''error'' None None
           (Some ''site_code and parameter_code are both required'') None, []))
   \<and> (dict_get ps ''sites'' = PNone \<longrightarrow>
      get_discharge_measurements rt ps =
        (format_response ''error'' None None (Some ''Sites parameter is required'') None, []))
   \<and> (dict_get ps ''sites'' = PNone \<longrightarrow>
      get_discharge_peaks rt ps =
        (format_response ''error'' None None (Some ''Sites parameter is required'') None, []))
   \<and> (dict_get ps ''sites'' = PNone \<longrightarrow>
      get_gwlevels rt ps =
        (format_response ''error'' None None (Some ''Sites parameter is required'') None, []))
   \<and> (dict_get ps ''site'' = PNone \<longrightarrow>
      get_ratings rt ps =
        (format_response ''error'' None None (Some ''Site parameter is required'') None, []))
   \<and> (dict_get ps ''parameterCd'' = PNone \<longrightarrow>
      get_pmcodes rt ps =
        (format_response ''error'' None None (Some ''Parameter code is required'') None, []))
   \<and> (dict_get ps ''years'' = PNone \<and> dict_get ps ''state'' = PNone
        \<and> dict_get ps ''counties'' = PNone \<and> dict_get ps ''categories'' = PNone \<longrightarrow>
      get_water_use rt ps =
        (format_response ''error'' None None
           (Some ''At least one of the parameters is required'') None, []))"
proof (intro conjI impI)
  show "get_site_data rt ps =
        (format_response ''error'' None None (Some ''Site code is required'') None, [])"
    if "dict_get ps ''site_code'' = PNone"
    using that by (simp add: get_site_data_def)
  show "get_daily_values rt ps =
        (format_response ''error'' None None (Some ''site_code is required'') None, [])"
    if "dict_get ps ''site_code'' = PNone"
    using that by (simp add: get_daily_values_def)
  show "get_instantaneous_values rt ps =
        (format_response ''error'' None None
           (Some ''site_code and parameter_code are both required'') None, [])"
    if "dict_get ps ''site_code'' = PNone \<or> dict_get ps ''parameter_code'' = PNone"
    using that by (auto simp: get_instantaneous_values_def)
  show "get_discharge_measurements rt ps =
        (format_response ''error'' None None (Some ''Sites parameter is required'') None, [])"
    if "dict_get ps ''sites'' = PNone"
    using that by (simp add: get_discharge_measurements_def)
  show "get_discharge_peaks rt ps =
        (format_response ''error'' None None (Some ''Sites parameter is required'') None, [])"
    if "dict_get ps ''sites'' = PNone"
    using that by (simp add: get_discharge_peaks_def)
  show "get_gwlevels rt ps =
        (format_response ''error'' None None (Some ''Sites parameter is required'') None, [])"
    if "dict_get ps ''sites'' = PNone"
    using that by (simp add: get_gwlevels_def)
  show "get_ratings rt ps =
        (format_response ''error'' None None (Some ''Site parameter is required'') None, [])"
    if "dict_get ps ''site'' = PNone"
    using that by (simp add: get_ratings_def)
  show "get_pmcodes rt ps =
        (format_response ''error'' None None (Some ''Parameter code is required'') None, [])"
    if "dict_get ps ''parameterCd'' = PNone"
    using that by (simp add: get_pmcodes_def)
  show "get_water_use rt ps =
        (format_response ''error'' None None
           (Some ''At least one of the parameters is required'') None, [])"
    if "dict_get ps ''years'' = PNone \<and> dict_get ps ''state'' = PNone
        \<and> dict_get ps ''counties'' = PNone \<and> dict_get ps ''categories'' = PNone"
    using that by (simp add: get_water_use_def)
qed

text \<open>Claim C7 at a mapping that holds a start date only.\<close>

theorem missing_required_parameter_witness:
  "dict_get [(''start'', PStr ''2020-01-01'')] ''sites'' = PNone
   \<and> get_discharge_measurements failing_runtime [(''start'', PStr ''2020-01-01'')] =
       (\<lparr>status = ''error'', data = None, column_names = None,
         message = Some ''Sites parameter is required'', metadata = None\<rparr>, [])
   \<and> dict_get [(''start'', PStr ''2020-01-01'')] ''site_code'' = PNone
   \<and> get_instantaneous_values failing_runtime [(''start'', PStr ''2020-01-01'')] =
       (\<lparr>status = ''error'', data = None, column_names = None,
         message = Some ''site_code and parameter_code are both required'', metadata = None\<rparr>, [])
   \<and> get_water_use failing_runtime [(''start'', PStr ''2020-01-01'')] =
       (\<lparr>status = ''error'', data = None, column_names = None,
         message = Some ''At least one of the parameters is required'', metadata = None\<rparr>, [])"
  using missing_required_parameter [of "[(''start'', PStr ''2020-01-01'')]" failing_runtime]
  by (simp add: dict_get_def dict_get_default_def format_response_def)

section \<open>Comma-separated parameters\<close>





text \<open>
  Claim C4 holds for discharge measurements, discharge peaks and groundwater levels, and
  fails for statistics and water-use data: both split the string into a local variable
  and then call the service with the mapping they were given, so the service receives
  the raw string \<^verbatim>\<open>"A,B"\<close> (statistics) or \<^verbatim>\<open>"2015,2020"\<close> (water use).
\<close>

theorem comma_string_forwarding:
  "snd (get_discharge_measurements rt [(''sites'', PStr ''A,B'')]) =
     [Call ''get_discharge_measurements''
        [(''sites'', PList [PStr ''A'', PStr ''B'']), (''start'', PNone), (''end'', PNone)]]
   \<and> snd (get_stats rt ps) = [Call ''get_stats'' ps]
   \<and> snd (get_stats rt [(''sites'', PStr ''A,B'')]) = [Call ''get_stats'' [(''sites'', PStr ''A,B'')]]
   \<and> snd (get_water_use rt [(''years'', PStr ''2015,2020'')]) =
       [Call ''get_water_use'' [(''years'', PStr ''2015,2020'')]]"
  by (simp add: get_discharge_measurements_def get_stats_def get_water_use_def Let_def
      call_and_format_calls dict_get_def dict_get_default_def)

section \<open>The dispatcher and the catalog\<close>

lemma sublist_prepend: "sublist x ys \<Longrightarrow> sublist x (p @ ys)"
proof -
  assume "sublist x ys"
  then obtain ps ss where "ys = ps @ x @ ss"
    by (auto simp: sublist_def)
  then have "p @ ys = (p @ ps) @ x @ ss"
    by simp
  then show ?thesis
    unfolding sublist_def by blast
qed

lemma sublist_join: "x \<in> set xs \<Longrightarrow> sublist x (join sep xs)"
proof (induction sep xs rule: join.induct)
  case (1 sep)
  then show ?case by simp
next
  case (2 sep x')
  then show ?case by simp
next
  case (3 sep x' y ys)
  show ?case
  proof (cases "x = x'")
    case True
    then show ?thesis by simp
  next
    case False
    with 3 have "sublist x (join sep (y # ys))" by simp
    then have "sublist x ((x' @ sep) @ join sep (y # ys))"
      by (rule sublist_prepend)
    then show ?thesis by simp
  qed
qed

text \<open>
  Claim C6: for a function name outside the registered set and any parameter mapping, the
  dispatcher returns an envelope with status \<^verbatim>\<open>"error"\<close> whose message contains every
  registered name, and no call to the service is made. The envelope does not depend on
  the parameters or on the service: no operation takes part in it.
\<close>

theorem unknown_function_error:
  assumes "function_name \<notin> set function_names"
  shows "call_function rt function_name ps =
           (\<lparr>status = ''error'', data = None, column_names = None,
             message = Some (''Function '' @ [CHR 0x27] @ function_name @ [CHR 0x27]
                             @ '' not found. Available functions: '' @ join '', '' function_names),
             metadata = None\<rparr>, [])
       \<and> (\<forall>n \<in> set function_names.
            sublist n (''Function '' @ [CHR 0x27] @ function_name @ [CHR 0x27]
                       @ '' not found. Available functions: '' @ join '', '' function_names))
       \<and> join '', '' function_names =
           ''get_site_data, get_daily_values, get_instantaneous_values, get_discharge_measurements, get_discharge_peaks, get_gwlevels, get_info, get_pmcodes, get_ratings, get_record, get_stats, get_water_use, what_sites''"
proof (intro conjI ballI)
  from assms have "map_of wrapper_functions function_name = None"
    by (simp add: function_names_def map_of_eq_None_iff)
  then show "call_function rt function_name ps =
           (\<lparr>status = ''error'', data = None, column_names = None,
             message = Some (''Function '' @ [CHR 0x27] @ function_name @ [CHR 0x27]
                             @ '' not found. Available functions: '' @ join '', '' function_names),
             metadata = None\<rparr>, [])"
    by (simp add: call_function_def format_response_def)
next
  fix n assume "n \<in> set function_names"
  then have "sublist n (join '', '' function_names)" by (rule sublist_join)
  then show "sublist n (''Function '' @ [CHR 0x27] @ function_name @ [CHR 0x27]
                       @ '' not found. Available functions: '' @ join '', '' function_names)"
    using sublist_prepend [of n "join '', '' function_names"
        "''Function '' @ [CHR 0x27] @ function_name @ [CHR 0x27]
           @ '' not found. Available functions: ''"]
    by simp
next
  show "join '', '' function_names =
           ''get_site_data, get_daily_values, get_instantaneous_values, get_discharge_measurements, get_discharge_peaks, get_gwlevels, get_info, get_pmcodes, get_ratings, get_record, get_stats, get_water_use, what_sites''"
    by (simp add: function_names_def wrapper_functions_def)
qed

text \<open>Claim C6 at the unregistered name \<^verbatim>\<open>get_weather\<close>.\<close>

theorem unknown_function_error_witness:
  "''get_weather'' \<notin> set function_names
   \<and> call_function failing_runtime ''get_weather'' [(''sites'', PStr ''09380000'')] =
       (\<lparr>status = ''error'', data = None, column_names = None,
         message = Some (''Function '' @ [CHR 0x27] @ ''get_weather'' @ [CHR 0x27] @ '' not found. Available functions: get_site_data, get_daily_values, get_instantaneous_values, get_discharge_measurements, get_discharge_peaks, get_gwlevels, get_info, get_pmcodes, get_ratings, get_record, get_stats, get_water_use, what_sites''),
         metadata = None\<rparr>, [])"
proof -
  have n: "''get_weather'' \<notin> set function_names"
    by (simp add: function_names_def wrapper_functions_def)
  show ?thesis
    using n unknown_function_error [OF n, of failing_runtime "[(''sites'', PStr ''09380000'')]"]
    by simp
qed

text \<open>
  Claim C2 fails on the code in one direction: \<^verbatim>\<open>get_record\<close> is a key of the dispatch
  table and has no descriptor in the catalog. It is the only such name; every descriptor
  names a dispatchable function, and no two descriptors share a name.
\<close>

theorem catalog_misses_get_record:
  "''get_record'' \<in> set function_names
   \<and> ''get_record'' \<notin> set (map name get_mcp_functions)
   \<and> filter (\<lambda>n. n \<notin> set (map name get_mcp_functions)) function_names = [''get_record'']
   \<and> list_all (\<lambda>n. n \<in> set function_names) (map name get_mcp_functions)
   \<and> distinct (map name get_mcp_functions)
   \<and> length function_names = 13 \<and> length get_mcp_functions = 12"
  by (simp add: function_names_def wrapper_functions_def get_mcp_functions_def)

section \<open>The driver's dispatches\<close>

lemma decode_matches_completed:
  "decode_matches loads ms = Inr calls \<Longrightarrow>
   calls = List.map_filter
             (\<lambda>m. case loads (py_strip m) of Decoded v \<Rightarrow> Some v | _ \<Rightarrow> None) ms
   \<and> (\<forall>m \<in> set ms. \<forall>e. loads (py_strip m) \<noteq> Raised e)"
proof (induction ms arbitrary: calls)
  case Nil
  then show ?case by (simp add: List.map_filter_simps)
next
  case (Cons m ms)
  show ?case
  proof (cases "loads (py_strip m)")
    case (Decoded v)
    with Cons.prems obtain calls' where c: "decode_matches loads ms = Inr calls'"
      and e: "calls = v # calls'"
      by (auto split: sum.splits)
    from Cons.IH [OF c] Decoded e show ?thesis
      by (simp add: List.map_filter_simps)
  next
    case JSONDecodeError
    with Cons.prems have "decode_matches loads ms = Inr calls" by simp
    from Cons.IH [OF this] JSONDecodeError show ?thesis
      by (simp add: List.map_filter_simps)
  next
    case (Raised e)
    with Cons.prems show ?thesis by simp
  qed
qed

lemma run_function_calls_completed:
  "snd (run_function_calls ag calls) = Inr results \<Longrightarrow>
   map Some (fst (run_function_calls ag calls)) = map call_args calls
   \<and> length results = length calls"
proof (induction calls arbitrary: results)
  case Nil
  then show ?case by auto
next
  case (Cons call calls)
  from Cons.prems obtain d where d: "call = PDict d"
    by (cases call) auto
  from Cons.prems d obtain result where
    r: "call_function_any ag (dict_get d ''name'') (dict_get_default d ''parameters'' (PDict []))
          = Inr result"
    by (auto simp: Let_def split: sum.splits)
  obtain dispatched rest where p: "run_function_calls ag calls = (dispatched, rest)"
    by (cases "run_function_calls ag calls")
  from Cons.prems d r p obtain results' where
    rest: "rest = Inr results'"
      and res: "results = (dict_get d ''name'', fst result) # results'"
    by (cases rest) (auto simp: Let_def)
  from p rest have "snd (run_function_calls ag calls) = Inr results'" by simp
  then have ih: "map Some (fst (run_function_calls ag calls)) = map call_args calls
      \<and> length results' = length calls"
    by (rule Cons.IH)
  show ?case
    using ih d r p rest res by (simp add: Let_def call_args_def)
qed

lemma call_function_any_typed:
  "call_function_any ag (PStr s) (PDict d) = Inr (call_function (mcp_wrapper ag) s d)"
  by (simp add: call_function_any_def)

lemma run_function_calls_typed:
  "list_all is_function_call calls \<Longrightarrow> \<exists>results. snd (run_function_calls ag calls) = Inr results"
proof (induction calls)
  case Nil
  then show ?case by simp
next
  case (Cons call calls)
  then obtain results where ih: "snd (run_function_calls ag calls) = Inr results"
    by auto
  from Cons.prems have "is_function_call call" by simp
  then obtain d s ps where d: "call = PDict d" and n: "dict_get d ''name'' = PStr s"
    and q: "dict_get_default d ''parameters'' (PDict []) = PDict ps"
    by (auto simp: is_function_call_def call_args_def split: pyval.splits)
  obtain dispatched rest where p: "run_function_calls ag calls = (dispatched, rest)"
    by (cases "run_function_calls ag calls")
  with ih have "rest = Inr results" by simp
  with d n q p show ?case
    by (simp add: Let_def call_function_any_typed)
qed

text \<open>
  What the driver does guarantee: a query that ends without an exception made exactly one
  dispatch for each block that decoded, in the order of the blocks, every decoded block
  being a dict; and every other block raised \<^verbatim>\<open>JSONDecodeError\<close> and left no trace.
\<close>

lemma completed_query_dispatches:
  assumes "answer (process_query ag msgs query) = Inr final"
  shows "\<exists>reply calls.
           client ag (create_prompt ag query (msgs @ [\<lparr>role = ''user'', content = query\<rparr>]))
             = Inr reply
           \<and> extract_function_calls ag reply = Inr calls
           \<and> calls = List.map_filter
                 (\<lambda>m. case json_loads ag (py_strip m) of Decoded v \<Rightarrow> Some v | _ \<Rightarrow> None)
                 (findall_function_calls reply)
           \<and> (\<forall>m \<in> set (findall_function_calls reply). \<forall>e. json_loads ag (py_strip m) \<noteq> Raised e)
           \<and> map Some (dispatches (process_query ag msgs query)) = map call_args calls"
proof -
  let ?msgs = "msgs @ [\<lparr>role = ''user'', content = query\<rparr>]"
  from assms obtain reply where r: "client ag (create_prompt ag query ?msgs) = Inr reply"
    by (cases "client ag (create_prompt ag query ?msgs)") (simp_all add: process_query_def Let_def)
  from assms r obtain calls where c: "extract_function_calls ag reply = Inr calls"
    by (cases "extract_function_calls ag reply") (simp_all add: process_query_def Let_def)
  note dm = decode_matches_completed [OF c [unfolded extract_function_calls_def]]
  obtain dispatched rest where p: "run_function_calls ag calls = (dispatched, rest)"
    by (cases "run_function_calls ag calls")
  have "map Some (dispatches (process_query ag msgs query)) = map call_args calls"
  proof (cases "calls = []")
    case True
    with r c show ?thesis
      by (simp add: process_query_def Let_def)
  next
    case False
    with assms r c p obtain results where rest: "rest = Inr results"
      by (cases rest) (simp_all add: process_query_def Let_def)
    with p have "snd (run_function_calls ag calls) = Inr results" by simp
    then have m: "map Some (fst (run_function_calls ag calls)) = map call_args calls"
      by (rule run_function_calls_completed [THEN conjunct1])
    from assms r c p rest False have "dispatches (process_query ag msgs query) = dispatched"
      by (cases "client ag (create_prompt_with_results ag query ?msgs results)")
        (simp_all add: process_query_def Let_def)
    with m p show ?thesis by simp
  qed
  with r c dm show ?thesis
    by blast
qed

lemma scenario_blocks:
  "findall_function_calls scenario_reply =
     ['' {\"name\": \"get_ratings\", \"parameters\": {}} '', ''{\"name\": '']"
  by code_simp

lemma scenario_calls:
  "extract_function_calls (sample_agent scenario_reply) scenario_reply =
     Inr [PDict [(''name'', PStr ''get_ratings''), (''parameters'', PDict [])]]"
  by code_simp

lemma scenario_malformed:
  "json_loads (sample_agent scenario_reply) (py_strip ''{\"name\": '') = JSONDecodeError"
  by code_simp

text \<open>
  Scenario E of the specification: a reply with one function call object and one
  truncated block ends in one dispatch and the model's second reply.
\<close>

lemma scenario_run:
  "process_query (sample_agent scenario_reply) [] ''What is the rating?'' =
     \<lparr>answer = Inr ''done'',
      history = [\<lparr>role = ''user'', content = ''What is the rating?''\<rparr>,
                 \<lparr>role = ''assistant'', content = ''done''\<rparr>],
      dispatches = [(PStr ''get_ratings'', PDict [])]\<rparr>"
proof -
  let ?ag = "sample_agent scenario_reply"
  have r: "client ?ag (create_prompt ?ag q ms) = Inr scenario_reply" for q ms
    by (simp add: sample_agent_def)
  have f: "client ?ag (create_prompt_with_results ?ag q ms results) = Inr ''done''"
    for q ms results
    by (simp add: sample_agent_def)
  have w: "call_function_any ?ag (PStr ''get_ratings'') (PDict []) =
      Inr (format_response ''error'' None None (Some ''Site parameter is required'') None, [])"
    by (simp add: call_function_any_def call_function_def wrapper_functions_def get_ratings_def
        dict_get_def dict_get_default_def)
  show ?thesis
    by (simp add: process_query_def Let_def r scenario_calls f dict_get_def dict_get_default_def w)
qed

lemma partition_at_brackets:
  "partition_at ''</function_call>'' (replicate n (CHR ''['') @ ''</function_call>'') =
     Some (replicate n (CHR ''[''), [])"
  by (induction n) simp_all

lemma nested_blocks:
  "findall_function_calls nested_reply = [replicate 1000 (CHR ''['')]"
proof -
  have o: "partition_at ''<function_call>'' nested_reply =
      Some ([], replicate 1000 (CHR ''['') @ ''</function_call>'')"
    by (simp add: nested_reply_def)
  have e: "findall_function_calls [] = []"
    by (simp add: findall_function_calls.simps)
  show ?thesis
    by (subst findall_function_calls.simps) (simp add: o partition_at_brackets e)
qed

lemma py_strip_brackets: "py_strip (replicate n (CHR ''['')) = replicate n (CHR ''['')"
proof -
  have s: "\<not> is_space (CHR ''['')"
    by (simp add: is_space_def)
  have d: "dropWhile is_space (replicate k (CHR ''['')) = replicate k (CHR ''['')" for k
    using s by (cases k) simp_all
  show ?thesis
    by (simp add: py_strip_def d s)
qed

lemma nested_loads:
  "json_loads (sample_agent nested_reply) (py_strip (replicate 1000 (CHR ''['')))
     = Raised RecursionError"
proof -
  have "length (replicate 1000 (CHR ''['')) \<noteq> length ''[]''"
    by simp
  then have a: "replicate 1000 (CHR ''['') \<noteq> ''[]''"
    by metis
  have "length (replicate 1000 (CHR ''['')) \<noteq>
      length ''{\"name\": \"get_ratings\", \"parameters\": {}}''"
    by simp
  then have b: "replicate 1000 (CHR ''['') \<noteq> ''{\"name\": \"get_ratings\", \"parameters\": {}}''"
    by metis
  show ?thesis
    unfolding py_strip_brackets using a b
    by (simp add: sample_agent_def sample_json_loads_def)
qed

lemma nested_run:
  "process_query (sample_agent nested_reply) [] ''What is the rating?'' =
     \<lparr>answer = Inl RecursionError,
      history = [\<lparr>role = ''user'', content = ''What is the rating?''\<rparr>],
      dispatches = []\<rparr>"
proof -
  let ?ag = "sample_agent nested_reply"
  have r: "client ?ag (create_prompt ?ag q ms) = Inr nested_reply" for q ms
    by (simp add: sample_agent_def)
  have x: "extract_function_calls ?ag nested_reply = Inl RecursionError"
    by (simp add: extract_function_calls_def nested_blocks nested_loads)
  show ?thesis
    by (simp add: process_query_def Let_def r x)
qed

text \<open>
  Claim C8 fails on the code in both of its parts. A well-formed block that is not a
  JSON object produces no dispatch: the reply \<^verbatim>\<open><function_call>[]</function_call>\<close> holds
  one block, which decodes to the empty list; \<^verbatim>\<open>call.get("name")\<close> raises
  \<^verbatim>\<open>AttributeError\<close> on it and the query ends with that exception. And a malformed block
  is not always skipped: on a block of 1000 opening brackets \<^verbatim>\<open>json.loads\<close> raises
  \<^verbatim>\<open>RecursionError\<close>, which the \<^verbatim>\<open>except json.JSONDecodeError\<close> does not catch, and the
  query ends with it.
\<close>

theorem blocks_that_end_the_query:
  "findall_function_calls array_reply = [''[]'']
   \<and> json_loads (sample_agent array_reply) (py_strip ''[]'') = Decoded (PList [])
   \<and> process_query (sample_agent array_reply) [] ''What is the rating?'' =
       \<lparr>answer = Inl AttributeError,
        history = [\<lparr>role = ''user'', content = ''What is the rating?''\<rparr>],
        dispatches = []\<rparr>
   \<and> findall_function_calls nested_reply = [replicate 1000 (CHR ''['')]
   \<and> json_loads (sample_agent nested_reply) (py_strip (replicate 1000 (CHR ''['')))
       = Raised RecursionError
   \<and> process_query (sample_agent nested_reply) [] ''What is the rating?'' =
       \<lparr>answer = Inl RecursionError,
        history = [\<lparr>role = ''user'', content = ''What is the rating?''\<rparr>],
        dispatches = []\<rparr>"
proof -
  have "findall_function_calls array_reply = [''[]'']
   \<and> json_loads (sample_agent array_reply) (py_strip ''[]'') = Decoded (PList [])
   \<and> process_query (sample_agent array_reply) [] ''What is the rating?'' =
       \<lparr>answer = Inl AttributeError,
        history = [\<lparr>role = ''user'', content = ''What is the rating?''\<rparr>],
        dispatches = []\<rparr>"
    by code_simp
  with nested_blocks nested_loads nested_run show ?thesis
    by blast
qed

end
